theory Spec2Isabelle
  imports Main "HOL-Library.Sublist" "HOL-Library.Multiset" "HOL-Library.Char_ord"
    "HOL-Library.List_Lexorder"
begin

section \<open>Strength routine tracker: the App component of src/App.tsx\<close>

text \<open>
  The component keeps six pieces of React state and a handful of closures over them.
  A closure reads the state of the render that created it (its snapshot) and acts on the
  world only by calling things: state setters, the toast hook, the console and the
  remote record store. Every closure is therefore modelled as a function from the
  snapshot (and from what the environment answers) to the value it returns and the
  list of calls it makes, in the order it makes them. Applying the setter calls to a
  state gives the state after.

  JavaScript built-ins that the component calls (\<open>parseInt\<close>, \<open>parseFloat\<close>,
  \<open>String.prototype.toLowerCase\<close>) are parameters of the functions that use them, and
  the type \<open>'n\<close> stands for the JavaScript number type.
\<close>

subsection \<open>Data model (App.tsx, lines 14--41)\<close>

datatype category = Upper | Lower

text \<open>
  The object literal handed to \<open>blink.db.exercises.create\<close> (lines 89--97) has every
  field of the interface \<open>Exercise\<close> except \<open>id\<close>, which the store assigns; the
  interface is the extension of that record by the identifier.
\<close>

record 'n NewExercise =
  user_id :: string
  exercise_name :: string
  category :: category
  reps :: 'n
  sets :: 'n
  total_weight :: 'n
  created_at :: string

record 'n Exercise = "'n NewExercise" +
  exercise_id :: string

record User =
  u_id :: string
  email :: string

text \<open>The draft: four strings, as the inputs deliver them (lines 36--41).\<close>

record FormData =
  form_exercise_name :: string
  form_reps :: string
  form_sets :: string
  form_total_weight :: string

record 'n AppState =
  user :: "User option"
  loading :: bool
  exercises :: "'n Exercise list"
  activeTab :: category
  showAddForm :: bool
  formData :: FormData

definition emptyForm :: FormData where
  "emptyForm =
     \<lparr>form_exercise_name = [], form_reps = [], form_sets = [], form_total_weight = []\<rparr>"

text \<open>The state of the first render (lines 31--41).\<close>

definition initialState :: "'n AppState" where
  "initialState =
     \<lparr>user = None, loading = True, exercises = [], activeTab = Upper,
      showAddForm = False, formData = emptyForm\<rparr>"

subsection \<open>Calls a closure can make\<close>

record Toast =
  title :: string
  description :: string
  variant :: "string option"

datatype 'n call =
    preventDefault
  | setUser "User option"
  | setLoading bool
  | setExercises "'n Exercise list"
  | setActiveTab category
  | setShowAddForm bool
  | setFormData FormData
  | toast Toast
  | console_error string string
  | db_exercises_create "'n NewExercise"
  | db_exercises_list string
  | auth_login

text \<open>
  Only the setters change the component's state; each replaces one piece of it by the
  value given.
\<close>

fun apply_call :: "'n call \<Rightarrow> 'n AppState \<Rightarrow> 'n AppState" where
  "apply_call (setUser u) s = s\<lparr>user := u\<rparr>"
| "apply_call (setLoading b) s = s\<lparr>loading := b\<rparr>"
| "apply_call (setExercises d) s = s\<lparr>exercises := d\<rparr>"
| "apply_call (setActiveTab c) s = s\<lparr>activeTab := c\<rparr>"
| "apply_call (setShowAddForm b) s = s\<lparr>showAddForm := b\<rparr>"
| "apply_call (setFormData f) s = s\<lparr>formData := f\<rparr>"
| "apply_call preventDefault s = s"
| "apply_call (toast t) s = s"
| "apply_call (console_error l e) s = s"
| "apply_call (db_exercises_create r) s = s"
| "apply_call (db_exercises_list u) s = s"
| "apply_call auth_login s = s"

definition run_calls :: "'n call list \<Rightarrow> 'n AppState \<Rightarrow> 'n AppState" where
  "run_calls cs s = fold apply_call cs s"

text \<open>How an awaited promise settles: with a value, or rejected with an error.\<close>

datatype 'a settled = Fulfilled 'a | Rejected string

subsection \<open>History lookup and filtered view (lines 117--126, 167)\<close>

text \<open>
  \<open>Array.prototype.find\<close> returns the first element the predicate accepts, or
  \<open>undefined\<close>; \<open>Array.prototype.filter\<close> returns the accepted elements in order.
  On a list these are \<^const>\<open>List.find\<close> and \<^const>\<open>filter\<close>. \<open>undefined\<close> and
  \<open>null\<close> are both \<^const>\<open>None\<close>: the view only tests them for truthiness
  (line 290). Neither closure calls anything.
\<close>

definition getPreviousExercise ::
  "(string \<Rightarrow> string) \<Rightarrow> 'n AppState \<Rightarrow> string \<Rightarrow> category \<Rightarrow> 'n Exercise option \<times> 'n call list"
where
  "getPreviousExercise toLowerCase s exerciseName cat =
     (find (\<lambda>ex. toLowerCase (exercise_name ex) = toLowerCase exerciseName \<and> category ex = cat)
        (exercises s), [])"

definition getFilteredExercises ::
  "'n AppState \<Rightarrow> category \<Rightarrow> 'n Exercise list \<times> 'n call list"
where
  "getFilteredExercises s cat = (filter (\<lambda>ex. category ex = cat) (exercises s), [])"

text \<open>
  Line 167: a string is truthy exactly when it is not empty, and the conditional
  evaluates the lookup only in its first branch.
\<close>

definition previousExercise ::
  "(string \<Rightarrow> string) \<Rightarrow> 'n AppState \<Rightarrow> 'n Exercise option \<times> 'n call list"
where
  "previousExercise toLowerCase s =
     (if form_exercise_name (formData s) \<noteq> []
      then getPreviousExercise toLowerCase s (form_exercise_name (formData s)) (activeTab s)
      else (None, []))"

subsection \<open>Loading and submitting (lines 44--60, 76--115)\<close>

definition loadFailedToast :: Toast where
  "loadFailedToast =
     \<lparr>title = ''Error'', description = ''Failed to load exercises'',
      variant = Some ''destructive''\<rparr>"

definition validationToast :: Toast where
  "validationToast =
     \<lparr>title = ''Error'', description = ''Please fill in all fields'',
      variant = Some ''destructive''\<rparr>"

definition successToast :: Toast where
  "successToast =
     \<lparr>title = ''Success'', description = ''Exercise logged successfully!'', variant = None\<rparr>"

definition createFailedToast :: Toast where
  "createFailedToast =
     \<lparr>title = ''Error'', description = ''Failed to log exercise'',
      variant = Some ''destructive''\<rparr>"

text \<open>
  \<open>loadExercises\<close> is an async function: it runs until its \<open>await\<close> and hands
  control back to its caller, and the rest runs when the store has answered. The first
  component is the calls made before it yields, the second the calls made after the
  awaited \<open>list\<close> has settled as \<open>listed\<close>. Without a user it returns at once.
\<close>

definition loadExercises ::
  "'n AppState \<Rightarrow> 'n Exercise list settled \<Rightarrow> 'n call list \<times> 'n call list"
where
  "loadExercises s listed =
     (case user s of
        None \<Rightarrow> ([], [])
      | Some u \<Rightarrow>
          ([db_exercises_list (u_id u)],
           (case listed of
              Fulfilled data \<Rightarrow> [setExercises data]
            | Rejected err \<Rightarrow>
                [console_error ''Failed to load exercises:'' err, toast loadFailedToast])))"

text \<open>
  \<open>handleSubmit\<close>, with \<open>now\<close> the value of \<open>new Date().toISOString()\<close>,
  \<open>created\<close> how the awaited \<open>create\<close> settles and \<open>listed\<close> how the \<open>list\<close> of the
  refresh settles. A field is falsy exactly when it is the empty string. The payload's
  first property reads \<open>user!.id\<close>: with no user that throws a TypeError inside the
  \<open>try\<close>, before anything is sent. \<open>loadExercises()\<close> is not awaited, so the success
  toast comes before the refresh completes.
\<close>

definition handleSubmit ::
  "(string \<Rightarrow> 'n) \<Rightarrow> (string \<Rightarrow> 'n) \<Rightarrow> string \<Rightarrow> unit settled \<Rightarrow> 'n Exercise list settled \<Rightarrow>
     'n AppState \<Rightarrow> 'n call list"
where
  "handleSubmit parseInt parseFloat now created listed s =
     preventDefault #
     (if form_exercise_name (formData s) = [] \<or> form_reps (formData s) = [] \<or>
         form_sets (formData s) = [] \<or> form_total_weight (formData s) = []
      then [toast validationToast]
      else
        (case user s of
           None \<Rightarrow>
             [console_error ''Failed to add exercise:'' ''TypeError'', toast createFailedToast]
         | Some u \<Rightarrow>
             db_exercises_create
               \<lparr>user_id = u_id u,
                exercise_name = form_exercise_name (formData s),
                category = activeTab s,
                reps = parseInt (form_reps (formData s)),
                sets = parseInt (form_sets (formData s)),
                total_weight = parseFloat (form_total_weight (formData s)),
                created_at = now\<rparr> #
             (case created of
                Fulfilled _ \<Rightarrow>
                  [setFormData emptyForm, setShowAddForm False] @
                  fst (loadExercises s listed) @
                  [toast successToast] @
                  snd (loadExercises s listed)
              | Rejected err \<Rightarrow>
                  [console_error ''Failed to add exercise:'' err, toast createFailedToast])))"

subsection \<open>Every way the component is driven\<close>

text \<open>
  The events the component reacts to, each with what the environment supplies:
  the auth subscription (lines 63--66), the effect on the user (lines 70--74), the
  sign-in button (158), the tabs (182), the add button (256), the four inputs (285, 326,
  336, 347), cancel (359) and the form's submit (278).
\<close>

datatype 'n event =
    AuthStateChanged "User option" bool
  | UserEffect "'n Exercise list settled"
  | SignInClick
  | TabValueChange category
  | AddButtonClick
  | ExerciseNameChange string
  | SetsChange string
  | RepsChange string
  | TotalWeightChange string
  | CancelClick
  | FormSubmit string "unit settled" "'n Exercise list settled"

fun handle ::
  "(string \<Rightarrow> 'n) \<Rightarrow> (string \<Rightarrow> 'n) \<Rightarrow> 'n event \<Rightarrow> 'n AppState \<Rightarrow> 'n call list"
where
  "handle parseInt parseFloat (AuthStateChanged u l) s = [setUser u, setLoading l]"
| "handle parseInt parseFloat (UserEffect listed) s =
     (if user s \<noteq> None
      then fst (loadExercises s listed) @ snd (loadExercises s listed) else [])"
| "handle parseInt parseFloat SignInClick s = [auth_login]"
| "handle parseInt parseFloat (TabValueChange v) s = [setActiveTab v]"
| "handle parseInt parseFloat AddButtonClick s = [setShowAddForm (\<not> showAddForm s)]"
| "handle parseInt parseFloat (ExerciseNameChange v) s =
     [setFormData ((formData s)\<lparr>form_exercise_name := v\<rparr>)]"
| "handle parseInt parseFloat (SetsChange v) s = [setFormData ((formData s)\<lparr>form_sets := v\<rparr>)]"
| "handle parseInt parseFloat (RepsChange v) s = [setFormData ((formData s)\<lparr>form_reps := v\<rparr>)]"
| "handle parseInt parseFloat (TotalWeightChange v) s =
     [setFormData ((formData s)\<lparr>form_total_weight := v\<rparr>)]"
| "handle parseInt parseFloat CancelClick s = [setShowAddForm False]"
| "handle parseInt parseFloat (FormSubmit now created listed) s =
     handleSubmit parseInt parseFloat now created listed s"

text \<open>The list an event's fetch delivered, if it carried one that succeeded.\<close>

fun fetched :: "'n event \<Rightarrow> 'n Exercise list option" where
  "fetched (UserEffect (Fulfilled data)) = Some data"
| "fetched (FormSubmit now created (Fulfilled data)) = Some data"
| "fetched ev = None"

subsection \<open>Built-ins at the worked examples\<close>

text \<open>
  The theorems below hold for every \<open>toLowerCase\<close>, \<open>parseInt\<close> and \<open>parseFloat\<close>.
  The worked examples need concrete ones, and use only inputs on which these agree with
  the built-ins: on ASCII text \<open>toLowerCase\<close> maps the letters A--Z to a--z and
  nothing else; on a string of decimal digits that denotes a number below \<open>2 ^ 53\<close>
  both \<open>parseInt\<close> and \<open>parseFloat\<close> return that number; on the word
  \<open>many\<close> both return NaN, here \<^const>\<open>None\<close>.
\<close>

definition ascii_toLowerCase :: "string \<Rightarrow> string" where
  "ascii_toLowerCase =
     map (\<lambda>c. if 65 \<le> (of_char c :: nat) \<and> (of_char c :: nat) \<le> 90
              then char_of ((of_char c :: nat) + 32) else c)"

definition digit_of :: "char \<Rightarrow> nat option" where
  "digit_of c =
     (if 48 \<le> (of_char c :: nat) \<and> (of_char c :: nat) \<le> 57
      then Some ((of_char c :: nat) - 48) else None)"

fun leading_digits :: "nat option \<Rightarrow> string \<Rightarrow> nat option" where
  "leading_digits acc [] = acc"
| "leading_digits acc (c # cs) =
     (case digit_of c of
        None \<Rightarrow> acc
      | Some d \<Rightarrow> leading_digits (Some (10 * (case acc of None \<Rightarrow> 0 | Some a \<Rightarrow> a) + d)) cs)"

definition digits_parse :: "string \<Rightarrow> nat option" where
  "digits_parse str = leading_digits None str"

subsection \<open>The contract's notion of a match\<close>

text \<open>
  Section 4.1 of the specification: a record matches a candidate name and a target
  category when the names agree once both are lower-cased and the categories are equal.
\<close>

definition matches :: "(string \<Rightarrow> string) \<Rightarrow> string \<Rightarrow> category \<Rightarrow> 'n Exercise \<Rightarrow> bool" where
  "matches toLowerCase name cat ex \<longleftrightarrow>
     toLowerCase (exercise_name ex) = toLowerCase name \<and> category ex = cat"

subsection \<open>Example data\<close>

text \<open>
  One user with three records, most recent first, as \<open>list\<close> with
  \<open>orderBy: { created_at: 'desc' }\<close> delivers them. Timestamps are what
  \<open>toISOString\<close> produces, so their order as strings is their order in time.
\<close>

definition lifter :: User where
  "lifter = \<lparr>u_id = ''u1'', email = ''lifter@example.org''\<rparr>"

definition squats_may :: "nat option Exercise" where
  "squats_may =
     \<lparr>user_id = ''u1'', exercise_name = ''Squats'', category = Lower, reps = Some 8,
      sets = Some 3, total_weight = Some 185, created_at = ''2024-05-02T18:30:00.000Z'',
      exercise_id = ''e3''\<rparr>"

definition bench_may :: "nat option Exercise" where
  "bench_may =
     \<lparr>user_id = ''u1'', exercise_name = ''Bench Press'', category = Upper, reps = Some 10,
      sets = Some 3, total_weight = Some 135, created_at = ''2024-05-01T07:15:00.000Z'',
      exercise_id = ''e2''\<rparr>"

definition squats_april :: "nat option Exercise" where
  "squats_april =
     \<lparr>user_id = ''u1'', exercise_name = ''squats'', category = Lower, reps = Some 8,
      sets = Some 3, total_weight = Some 175, created_at = ''2024-04-28T18:05:00.000Z'',
      exercise_id = ''e1''\<rparr>"

text \<open>The lower tab, with a name typed in capitals.\<close>

definition gym_state :: "nat option AppState" where
  "gym_state =
     \<lparr>user = Some lifter, loading = False,
      exercises = [squats_may, bench_may, squats_april], activeTab = Lower,
      showAddForm = True,
      formData = \<lparr>form_exercise_name = ''SQUATS'', form_reps = ''8'', form_sets = ''3'',
                  form_total_weight = ''190''\<rparr>\<rparr>"

text \<open>The upper tab with a complete draft, and the same draft with the sets left out.\<close>

definition bench_state :: "nat option AppState" where
  "bench_state =
     gym_state
       \<lparr>activeTab := Upper,
        formData := \<lparr>form_exercise_name = ''Bench Press'', form_reps = ''10'',
                     form_sets = ''3'', form_total_weight = ''135''\<rparr>\<rparr>"

definition bench_no_sets_state :: "nat option AppState" where
  "bench_no_sets_state =
     gym_state
       \<lparr>activeTab := Upper,
        formData := \<lparr>form_exercise_name = ''Bench Press'', form_reps = ''10'',
                     form_sets = [], form_total_weight = ''135''\<rparr>\<rparr>"

text \<open>A draft whose numbers are zero and not a number at all.\<close>

definition odd_numbers_state :: "nat option AppState" where
  "odd_numbers_state =
     gym_state
       \<lparr>activeTab := Upper,
        formData := \<lparr>form_exercise_name = ''Bench Press'', form_reps = ''0'',
                     form_sets = ''many'', form_total_weight = ''135''\<rparr>\<rparr>"

text \<open>What the store holds once the bench press of 3 May has been logged.\<close>

definition bench_logged :: "nat option Exercise" where
  "bench_logged =
     \<lparr>user_id = ''u1'', exercise_name = ''Bench Press'', category = Upper, reps = Some 10,
      sets = Some 3, total_weight = Some 135, created_at = ''2024-05-03T07:10:00.000Z'',
      exercise_id = ''e4''\<rparr>"

definition after_logging :: "nat option Exercise list" where
  "after_logging = [bench_logged, squats_may, bench_may, squats_april]"

text \<open>A record with an empty name in the active tab, and an empty name field.\<close>

definition unnamed_lower :: "nat option Exercise" where
  "unnamed_lower =
     \<lparr>user_id = ''u1'', exercise_name = [], category = Lower, reps = Some 5,
      sets = Some 5, total_weight = Some 60, created_at = ''2024-05-04T09:00:00.000Z'',
      exercise_id = ''e5''\<rparr>"

definition unnamed_state :: "nat option AppState" where
  "unnamed_state =
     gym_state\<lparr>exercises := [unnamed_lower, squats_may], formData := emptyForm\<rparr>"

section \<open>The history lookup and the filtered views\<close>

text \<open>
  Claim C1. On a record list ordered most-recent-first, \<open>getPreviousExercise\<close> returns
  the first record of the list that matches the candidate name case-insensitively and
  has the target category: every record before it fails to match, and no matching
  record of the list was created later. It returns none exactly when no record matches.
  The order of creation is read off the timestamps by any function \<open>t\<close> into a
  preorder under which the list is descending.
\<close>

theorem getPreviousExercise_most_recent_match:
  fixes t :: "string \<Rightarrow> 'a::preorder"
  assumes desc: "sorted_wrt (\<lambda>a b. t (created_at b) \<le> t (created_at a)) (exercises s)"
  shows "(case fst (getPreviousExercise toLowerCase s name cat) of
            None \<Rightarrow> \<not> (\<exists>ex \<in> set (exercises s). matches toLowerCase name cat ex)
          | Some r \<Rightarrow>
              (\<exists>i < length (exercises s). exercises s ! i = r \<and> matches toLowerCase name cat r \<and>
                 (\<forall>j < i. \<not> matches toLowerCase name cat (exercises s ! j))) \<and>
              (\<forall>ex \<in> set (exercises s). matches toLowerCase name cat ex \<longrightarrow>
                 t (created_at ex) \<le> t (created_at r)))"
proof (cases "fst (getPreviousExercise toLowerCase s name cat)")
  case None
  then have "find (matches toLowerCase name cat) (exercises s) = None"
    by (simp add: getPreviousExercise_def matches_def[abs_def])
  then show ?thesis using None by (simp add: find_None_iff)
next
  case (Some r)
  then have "find (matches toLowerCase name cat) (exercises s) = Some r"
    by (simp add: getPreviousExercise_def matches_def[abs_def])
  then obtain i where i: "i < length (exercises s)" "matches toLowerCase name cat (exercises s ! i)"
      "r = exercises s ! i" "\<forall>j<i. \<not> matches toLowerCase name cat (exercises s ! j)"
    unfolding find_Some_iff by blast
  have recent: "t (created_at ex) \<le> t (created_at r)"
    if "ex \<in> set (exercises s)" "matches toLowerCase name cat ex" for ex
  proof -
    from that(1) obtain k where k: "k < length (exercises s)" "exercises s ! k = ex"
      by (auto simp: in_set_conv_nth)
    with that(2) i(4) have "\<not> k < i" by auto
    then consider "k = i" | "i < k" by linarith
    then show ?thesis
    proof cases
      case 1
      with k i(3) show ?thesis by simp
    next
      case 2
      with desc k(1) have "t (created_at (exercises s ! k)) \<le> t (created_at (exercises s ! i))"
        by (simp add: sorted_wrt_iff_nth_less)
      with k i(3) show ?thesis by simp
    qed
  qed
  from i recent show ?thesis using Some by auto
qed

text \<open>
  The example of the specification, with two squat sessions on record: typing the name
  in capitals on the lower tab finds the session of 2 May, not the one of 28 April.
\<close>

theorem getPreviousExercise_most_recent_match_witness:
  "sorted_wrt (\<lambda>a b. created_at b \<le> created_at a) (exercises gym_state) \<and>
   fst (getPreviousExercise ascii_toLowerCase gym_state ''SQUATS'' Lower) = Some squats_may \<and>
   matches ascii_toLowerCase ''SQUATS'' Lower squats_april \<and>
   created_at squats_april \<le> created_at squats_may"
proof -
  have desc: "sorted_wrt (\<lambda>a b. created_at b \<le> created_at a) (exercises gym_state)"
    by code_simp
  have found: "fst (getPreviousExercise ascii_toLowerCase gym_state ''SQUATS'' Lower) =
      Some squats_may"
    by code_simp
  have older: "squats_april \<in> set (exercises gym_state)"
    by (simp add: gym_state_def)
  have also_matches: "matches ascii_toLowerCase ''SQUATS'' Lower squats_april"
    by code_simp
  from getPreviousExercise_most_recent_match
         [of "\<lambda>x. x" gym_state ascii_toLowerCase "''SQUATS''" Lower, OF desc]
  have "\<forall>ex \<in> set (exercises gym_state).
      matches ascii_toLowerCase ''SQUATS'' Lower ex \<longrightarrow> created_at ex \<le> created_at squats_may"
    by (simp add: found)
  with older also_matches have "created_at squats_april \<le> created_at squats_may"
    by blast
  with desc found also_matches show ?thesis by blast
qed

text \<open>
  Claim C4. For every loaded list and every category, the filtered view is a
  subsequence of the list (so the relative order is that of the list), its elements are
  exactly the records of the list with that category, and each of them occurs in the
  view as often as in the list.
\<close>

theorem getFilteredExercises_exact:
  "subseq (fst (getFilteredExercises s cat)) (exercises s) \<and>
   set (fst (getFilteredExercises s cat)) = {ex \<in> set (exercises s). category ex = cat} \<and>
   mset (fst (getFilteredExercises s cat)) =
     filter_mset (\<lambda>ex. category ex = cat) (mset (exercises s))"
  by (simp add: getFilteredExercises_def)

theorem getFilteredExercises_exact_witness:
  "fst (getFilteredExercises gym_state Lower) = [squats_may, squats_april] \<and>
   subseq [squats_may, squats_april] (exercises gym_state)"
proof -
  have view: "fst (getFilteredExercises gym_state Lower) = [squats_may, squats_april]"
    by code_simp
  from getFilteredExercises_exact [of gym_state Lower] show ?thesis
    by (simp add: view)
qed

lemma category_not_Upper: "(c \<noteq> Upper) = (c = Lower)"
  by (cases c) simp_all

text \<open>
  Claim C9. The upper and the lower view partition the loaded list: no record is in
  both, every record is in one of them, and the two views together hold each record as
  often as the list does. A category is \<open>Upper\<close> or \<open>Lower\<close> and nothing else.
\<close>

theorem filtered_views_partition:
  "set (fst (getFilteredExercises s Upper)) \<inter> set (fst (getFilteredExercises s Lower)) = {} \<and>
   set (fst (getFilteredExercises s Upper)) \<union> set (fst (getFilteredExercises s Lower)) =
     set (exercises s) \<and>
   mset (fst (getFilteredExercises s Upper)) + mset (fst (getFilteredExercises s Lower)) =
     mset (exercises s)"
proof -
  have disj:
    "set (fst (getFilteredExercises s Upper)) \<inter> set (fst (getFilteredExercises s Lower)) = {}"
    by (auto simp: getFilteredExercises_def)
  have cover:
    "set (fst (getFilteredExercises s Upper)) \<union> set (fst (getFilteredExercises s Lower)) =
       set (exercises s)"
    using category_not_Upper by (auto simp: getFilteredExercises_def)
  have "mset (filter (\<lambda>ex. category ex = Upper) xs) +
        mset (filter (\<lambda>ex. category ex = Lower) xs) = mset xs"
    for xs :: "'a Exercise list"
    by (induction xs) (auto simp: category_not_Upper)
  then have both:
    "mset (fst (getFilteredExercises s Upper)) + mset (fst (getFilteredExercises s Lower)) =
       mset (exercises s)"
    by (simp add: getFilteredExercises_def)
  from disj cover both show ?thesis by blast
qed

theorem filtered_views_partition_witness:
  "fst (getFilteredExercises gym_state Upper) = [bench_may] \<and>
   fst (getFilteredExercises gym_state Lower) = [squats_may, squats_april] \<and>
   set [bench_may] \<inter> set [squats_may, squats_april] = {} \<and>
   set [bench_may] \<union> set [squats_may, squats_april] = set (exercises gym_state)"
proof -
  have up: "fst (getFilteredExercises gym_state Upper) = [bench_may]"
    by code_simp
  have lo: "fst (getFilteredExercises gym_state Lower) = [squats_may, squats_april]"
    by code_simp
  from filtered_views_partition [of gym_state] show ?thesis
    unfolding up lo by simp
qed

text \<open>
  Claim C10. When the name field of the draft is empty, the previous entry shown is
  none, whatever the loaded records are: the conditional of line 167 takes its second
  branch and the lookup is not evaluated, although a record with an empty name would
  match the empty candidate.
\<close>

theorem previousExercise_empty_name:
  "form_exercise_name (formData s) = [] \<Longrightarrow> previousExercise toLowerCase s = (None, [])"
  by (simp add: previousExercise_def)

theorem previousExercise_empty_name_witness:
  "form_exercise_name (formData unnamed_state) = [] \<and>
   fst (getPreviousExercise ascii_toLowerCase unnamed_state [] (activeTab unnamed_state)) =
     Some unnamed_lower \<and>
   previousExercise ascii_toLowerCase unnamed_state = (None, [])"
proof -
  have empty: "form_exercise_name (formData unnamed_state) = []"
    by (simp add: unnamed_state_def gym_state_def emptyForm_def)
  have would_match:
    "fst (getPreviousExercise ascii_toLowerCase unnamed_state [] (activeTab unnamed_state)) =
       Some unnamed_lower"
    by code_simp
  from previousExercise_empty_name [OF empty, of ascii_toLowerCase] empty would_match
  show ?thesis by simp
qed

text \<open>
  Claim C8. The two lookups have no side effects: neither makes any call, so whatever
  the state is when they are evaluated (the record list, the draft, the tab, the form
  flag, the user), it is the same afterwards.
\<close>

theorem lookups_make_no_calls:
  "snd (getPreviousExercise toLowerCase s name cat) = [] \<and>
   snd (getFilteredExercises s cat) = [] \<and>
   run_calls (snd (getPreviousExercise toLowerCase s name cat)) t = t \<and>
   run_calls (snd (getFilteredExercises s cat)) t = t"
  by (simp add: getPreviousExercise_def getFilteredExercises_def run_calls_def)

section \<open>Submitting and loading\<close>

lemma run_calls_Nil: "run_calls [] t = t"
  by (simp add: run_calls_def)

lemma run_calls_Cons: "run_calls (c # cs) t = run_calls cs (apply_call c t)"
  by (simp add: run_calls_def)

text \<open>The two shapes of a submission: a draft with an empty field, and a complete one.\<close>

lemma handleSubmit_invalid:
  assumes "form_exercise_name (formData s) = [] \<or> form_reps (formData s) = [] \<or>
           form_sets (formData s) = [] \<or> form_total_weight (formData s) = []"
  shows "handleSubmit parseInt parseFloat now created listed s =
           [preventDefault, toast validationToast]"
  using assms by (simp add: handleSubmit_def)

lemma handleSubmit_valid:
  assumes "form_exercise_name (formData s) \<noteq> []" "form_reps (formData s) \<noteq> []"
    "form_sets (formData s) \<noteq> []" "form_total_weight (formData s) \<noteq> []"
    and "user s = Some u"
  shows "handleSubmit parseInt parseFloat now created listed s =
     [preventDefault,
      db_exercises_create
        \<lparr>user_id = u_id u, exercise_name = form_exercise_name (formData s),
         category = activeTab s, reps = parseInt (form_reps (formData s)),
         sets = parseInt (form_sets (formData s)),
         total_weight = parseFloat (form_total_weight (formData s)), created_at = now\<rparr>] @
     (case created of
        Fulfilled _ \<Rightarrow>
          [setFormData emptyForm, setShowAddForm False, db_exercises_list (u_id u),
           toast successToast] @
          (case listed of
             Fulfilled data \<Rightarrow> [setExercises data]
           | Rejected err \<Rightarrow>
               [console_error ''Failed to load exercises:'' err, toast loadFailedToast])
      | Rejected err \<Rightarrow>
          [console_error ''Failed to add exercise:'' err, toast createFailedToast])"
  using assms by (simp add: handleSubmit_def loadExercises_def split: settled.splits)

text \<open>
  Claim C2. With all four fields non-empty, a signed-in user (the form is only rendered
  for one, lines 148--165) and a \<open>create\<close> that succeeds, submitting makes exactly one
  \<open>create\<close> call; its record has the active tab of the submitting render as category
  and the current time as creation timestamp; nothing has changed the state before that
  call; afterwards the draft is empty, the form is collapsed, a \<open>list\<close> call for the
  user has been made, and when that call succeeds the loaded list is what it delivered.
  The state \<open>t\<close> that the setters act on is arbitrary.
\<close>

theorem handleSubmit_creates_one_record:
  assumes "form_exercise_name (formData s) \<noteq> []" "form_reps (formData s) \<noteq> []"
    "form_sets (formData s) \<noteq> []" "form_total_weight (formData s) \<noteq> []"
    and "user s = Some u" and "created = Fulfilled v"
  shows "\<exists>r pre post.
           handleSubmit parseInt parseFloat now created listed s =
             pre @ db_exercises_create r # post \<and>
           (\<forall>r'. db_exercises_create r' \<notin> set pre \<union> set post) \<and>
           category r = activeTab s \<and> created_at r = now \<and>
           run_calls pre t = t \<and>
           formData (run_calls (handleSubmit parseInt parseFloat now created listed s) t) =
             emptyForm \<and>
           \<not> showAddForm (run_calls (handleSubmit parseInt parseFloat now created listed s) t) \<and>
           db_exercises_list (u_id u) \<in> set post \<and>
           (\<forall>data. listed = Fulfilled data \<longrightarrow>
              exercises (run_calls (handleSubmit parseInt parseFloat now created listed s) t) =
                data)"
proof -
  let ?r = "\<lparr>user_id = u_id u, exercise_name = form_exercise_name (formData s),
         category = activeTab s, reps = parseInt (form_reps (formData s)),
         sets = parseInt (form_sets (formData s)),
         total_weight = parseFloat (form_total_weight (formData s)), created_at = now\<rparr>"
  let ?tail = "(case listed of
             Fulfilled data \<Rightarrow> [setExercises data]
           | Rejected err \<Rightarrow>
               [console_error ''Failed to load exercises:'' err, toast loadFailedToast])"
  let ?post = "[setFormData emptyForm, setShowAddForm False, db_exercises_list (u_id u),
           toast successToast] @ ?tail"
  have shape: "handleSubmit parseInt parseFloat now created listed s =
      [preventDefault] @ db_exercises_create ?r # ?post"
    using handleSubmit_valid[OF assms(1-5)] assms(6) by simp
  have nocreate: "\<forall>r'. db_exercises_create r' \<notin> set [preventDefault] \<union> set ?post"
    by (simp split: settled.splits)
  have pre: "run_calls [preventDefault] t = t"
    by (simp add: run_calls_Cons run_calls_Nil)
  have form: "formData (run_calls ([preventDefault] @ db_exercises_create ?r # ?post) t) = emptyForm"
    by (simp add: run_calls_Cons run_calls_Nil split: settled.splits)
  have shown: "\<not> showAddForm (run_calls ([preventDefault] @ db_exercises_create ?r # ?post) t)"
    by (simp add: run_calls_Cons run_calls_Nil split: settled.splits)
  have refetch: "db_exercises_list (u_id u) \<in> set ?post"
    by simp
  have fresh: "\<forall>data. listed = Fulfilled data \<longrightarrow>
      exercises (run_calls ([preventDefault] @ db_exercises_create ?r # ?post) t) = data"
    by (simp add: run_calls_Cons run_calls_Nil)
  show ?thesis
    unfolding shape
    apply (rule exI[of _ ?r], rule exI[of _ "[preventDefault]"], rule exI[of _ ?post])
    using nocreate pre form shown refetch fresh by simp
qed

text \<open>
  Logging the bench press of 3 May from the upper tab: the record sent carries the
  parsed numbers, the tab and the timestamp, and the refresh delivers four records.
\<close>

theorem handleSubmit_creates_one_record_witness:
  "form_exercise_name (formData bench_state) \<noteq> [] \<and> form_reps (formData bench_state) \<noteq> [] \<and>
   form_sets (formData bench_state) \<noteq> [] \<and> form_total_weight (formData bench_state) \<noteq> [] \<and>
   user bench_state = Some lifter \<and>
   db_exercises_create
     \<lparr>user_id = ''u1'', exercise_name = ''Bench Press'', category = Upper, reps = Some 10,
      sets = Some 3, total_weight = Some 135, created_at = ''2024-05-03T07:10:00.000Z''\<rparr>
     \<in> set (handleSubmit digits_parse digits_parse ''2024-05-03T07:10:00.000Z''
              (Fulfilled ()) (Fulfilled after_logging) bench_state) \<and>
   formData (run_calls (handleSubmit digits_parse digits_parse ''2024-05-03T07:10:00.000Z''
              (Fulfilled ()) (Fulfilled after_logging) bench_state) bench_state) = emptyForm \<and>
   \<not> showAddForm (run_calls (handleSubmit digits_parse digits_parse ''2024-05-03T07:10:00.000Z''
              (Fulfilled ()) (Fulfilled after_logging) bench_state) bench_state) \<and>
   exercises (run_calls (handleSubmit digits_parse digits_parse ''2024-05-03T07:10:00.000Z''
              (Fulfilled ()) (Fulfilled after_logging) bench_state) bench_state) = after_logging"
proof -
  have name: "form_exercise_name (formData bench_state) \<noteq> []"
    and reps: "form_reps (formData bench_state) \<noteq> []"
    and sets: "form_sets (formData bench_state) \<noteq> []"
    and weight: "form_total_weight (formData bench_state) \<noteq> []"
    and usr: "user bench_state = Some lifter"
    by (simp_all add: bench_state_def gym_state_def)
  have sent: "db_exercises_create
     \<lparr>user_id = ''u1'', exercise_name = ''Bench Press'', category = Upper, reps = Some 10,
      sets = Some 3, total_weight = Some 135, created_at = ''2024-05-03T07:10:00.000Z''\<rparr>
     \<in> set (handleSubmit digits_parse digits_parse ''2024-05-03T07:10:00.000Z''
              (Fulfilled ()) (Fulfilled after_logging) bench_state)"
    by code_simp
  from handleSubmit_creates_one_record
         [OF name reps sets weight usr refl, of digits_parse digits_parse
            "''2024-05-03T07:10:00.000Z''" "()" "Fulfilled after_logging" bench_state]
  have "formData (run_calls (handleSubmit digits_parse digits_parse ''2024-05-03T07:10:00.000Z''
              (Fulfilled ()) (Fulfilled after_logging) bench_state) bench_state) = emptyForm \<and>
   \<not> showAddForm (run_calls (handleSubmit digits_parse digits_parse ''2024-05-03T07:10:00.000Z''
              (Fulfilled ()) (Fulfilled after_logging) bench_state) bench_state) \<and>
   exercises (run_calls (handleSubmit digits_parse digits_parse ''2024-05-03T07:10:00.000Z''
              (Fulfilled ()) (Fulfilled after_logging) bench_state) bench_state) = after_logging"
    by blast
  with name reps sets weight usr sent show ?thesis by blast
qed

text \<open>
  Claim C3. When at least one of the four fields is the empty string, submitting makes
  no \<open>create\<close> call, does make the validation toast, and changes nothing in the
  state: the record list, the draft and the form flag are what they were.
\<close>

theorem handleSubmit_rejects_empty_field:
  assumes "form_exercise_name (formData s) = [] \<or> form_reps (formData s) = [] \<or>
           form_sets (formData s) = [] \<or> form_total_weight (formData s) = []"
  shows "(\<forall>r. db_exercises_create r \<notin> set (handleSubmit parseInt parseFloat now created listed s)) \<and>
         toast validationToast \<in> set (handleSubmit parseInt parseFloat now created listed s) \<and>
         run_calls (handleSubmit parseInt parseFloat now created listed s) t = t"
  by (simp add: handleSubmit_invalid[OF assms] run_calls_Cons run_calls_Nil)

text \<open>
  The example of the specification: Bench Press, 10 reps, 135 lbs and no sets. The
  three loaded records stay three and the form stays open with its draft.
\<close>

theorem handleSubmit_rejects_empty_field_witness:
  "form_sets (formData bench_no_sets_state) = [] \<and>
   (\<forall>r. db_exercises_create r \<notin>
      set (handleSubmit digits_parse digits_parse ''2024-05-03T07:10:00.000Z''
             (Fulfilled ()) (Fulfilled after_logging) bench_no_sets_state)) \<and>
   toast validationToast \<in>
      set (handleSubmit digits_parse digits_parse ''2024-05-03T07:10:00.000Z''
             (Fulfilled ()) (Fulfilled after_logging) bench_no_sets_state) \<and>
   run_calls (handleSubmit digits_parse digits_parse ''2024-05-03T07:10:00.000Z''
             (Fulfilled ()) (Fulfilled after_logging) bench_no_sets_state) bench_no_sets_state =
     bench_no_sets_state \<and>
   length (exercises bench_no_sets_state) = 3 \<and> showAddForm bench_no_sets_state"
proof -
  have no_sets: "form_sets (formData bench_no_sets_state) = []"
    by (simp add: bench_no_sets_state_def gym_state_def)
  then have some_empty:
    "form_exercise_name (formData bench_no_sets_state) = [] \<or>
     form_reps (formData bench_no_sets_state) = [] \<or>
     form_sets (formData bench_no_sets_state) = [] \<or>
     form_total_weight (formData bench_no_sets_state) = []"
    by simp
  have rest: "length (exercises bench_no_sets_state) = 3 \<and> showAddForm bench_no_sets_state"
    by (simp add: bench_no_sets_state_def gym_state_def)
  from handleSubmit_rejects_empty_field
         [OF some_empty, of digits_parse digits_parse "''2024-05-03T07:10:00.000Z''"
            "Fulfilled ()" "Fulfilled after_logging" bench_no_sets_state]
       no_sets rest
  show ?thesis by blast
qed

text \<open>
  Claim C5. A store call that fails is caught and reported, and the state is left as it
  was. With a user signed in: a failed \<open>list\<close> in \<open>loadExercises\<close> ends in the
  load-failure toast and changes no state; a failed \<open>create\<close> in a complete
  submission ends in the create-failure toast and changes no state, so the list is not
  cleared, the form not collapsed and the draft not cleared; and when the \<open>create\<close>
  succeeds but the refreshing \<open>list\<close> fails, the load-failure toast is made and the
  loaded list is the one from before.
\<close>

theorem store_failure_keeps_state:
  assumes "user s = Some u"
  shows "(toast loadFailedToast \<in> set (snd (loadExercises s (Rejected err))) \<and>
          run_calls (fst (loadExercises s (Rejected err)) @ snd (loadExercises s (Rejected err))) t
            = t) \<and>
         (form_exercise_name (formData s) \<noteq> [] \<and> form_reps (formData s) \<noteq> [] \<and>
          form_sets (formData s) \<noteq> [] \<and> form_total_weight (formData s) \<noteq> [] \<longrightarrow>
            toast createFailedToast \<in>
              set (handleSubmit parseInt parseFloat now (Rejected err) listed s) \<and>
            run_calls (handleSubmit parseInt parseFloat now (Rejected err) listed s) t = t \<and>
            toast loadFailedToast \<in>
              set (handleSubmit parseInt parseFloat now (Fulfilled v) (Rejected err) s) \<and>
            exercises
              (run_calls (handleSubmit parseInt parseFloat now (Fulfilled v) (Rejected err) s) t) =
              exercises t)"
proof -
  have load: "toast loadFailedToast \<in> set (snd (loadExercises s (Rejected err))) \<and>
      run_calls (fst (loadExercises s (Rejected err)) @ snd (loadExercises s (Rejected err))) t = t"
    using assms by (simp add: loadExercises_def run_calls_Cons run_calls_Nil)
  have submit: "toast createFailedToast \<in>
              set (handleSubmit parseInt parseFloat now (Rejected err) listed s) \<and>
            run_calls (handleSubmit parseInt parseFloat now (Rejected err) listed s) t = t \<and>
            toast loadFailedToast \<in>
              set (handleSubmit parseInt parseFloat now (Fulfilled v) (Rejected err) s) \<and>
            exercises
              (run_calls (handleSubmit parseInt parseFloat now (Fulfilled v) (Rejected err) s) t) =
              exercises t"
    if "form_exercise_name (formData s) \<noteq> []" "form_reps (formData s) \<noteq> []"
      "form_sets (formData s) \<noteq> []" "form_total_weight (formData s) \<noteq> []"
    by (simp add: handleSubmit_valid[OF that assms] run_calls_Cons run_calls_Nil)
  from load submit show ?thesis by blast
qed

text \<open>The store is unreachable while the bench press is being logged.\<close>

theorem store_failure_keeps_state_witness:
  "user bench_state = Some lifter \<and>
   form_exercise_name (formData bench_state) \<noteq> [] \<and> form_reps (formData bench_state) \<noteq> [] \<and>
   form_sets (formData bench_state) \<noteq> [] \<and> form_total_weight (formData bench_state) \<noteq> [] \<and>
   toast loadFailedToast \<in> set (snd (loadExercises bench_state (Rejected ''offline''))) \<and>
   toast createFailedToast \<in>
     set (handleSubmit digits_parse digits_parse ''2024-05-03T07:10:00.000Z''
            (Rejected ''offline'') (Rejected ''offline'') bench_state) \<and>
   run_calls (handleSubmit digits_parse digits_parse ''2024-05-03T07:10:00.000Z''
            (Rejected ''offline'') (Rejected ''offline'') bench_state) bench_state = bench_state \<and>
   exercises (run_calls (handleSubmit digits_parse digits_parse ''2024-05-03T07:10:00.000Z''
            (Fulfilled ()) (Rejected ''offline'') bench_state) bench_state) =
     [squats_may, bench_may, squats_april]"
proof -
  have usr: "user bench_state = Some lifter"
    and filled: "form_exercise_name (formData bench_state) \<noteq> []"
      "form_reps (formData bench_state) \<noteq> []" "form_sets (formData bench_state) \<noteq> []"
      "form_total_weight (formData bench_state) \<noteq> []"
    and loaded: "exercises bench_state = [squats_may, bench_may, squats_april]"
    by (simp_all add: bench_state_def gym_state_def)
  from store_failure_keeps_state
         [OF usr, of "''offline''" bench_state digits_parse digits_parse
            "''2024-05-03T07:10:00.000Z''" "Rejected ''offline''" "()"]
       usr filled loaded
  show ?thesis by simp
qed

text \<open>
  Claim C6. A submission is turned down by validation exactly when some field is the
  empty string. A \<open>create\<close> call is made exactly when no field is empty and a user is
  signed in, and the record it sends has as reps and sets the \<open>parseInt\<close> of the
  reps and sets fields and as total weight the \<open>parseFloat\<close> of the weight field.
  This holds for every \<open>parseInt\<close> and \<open>parseFloat\<close>: what they return decides
  nothing, so no range or format check stands between a non-empty draft and the store.
\<close>

theorem handleSubmit_validates_emptiness_only:
  "(toast validationToast \<in> set (handleSubmit parseInt parseFloat now created listed s) \<longleftrightarrow>
      form_exercise_name (formData s) = [] \<or> form_reps (formData s) = [] \<or>
      form_sets (formData s) = [] \<or> form_total_weight (formData s) = []) \<and>
   ((\<exists>r. db_exercises_create r \<in> set (handleSubmit parseInt parseFloat now created listed s)) \<longleftrightarrow>
      form_exercise_name (formData s) \<noteq> [] \<and> form_reps (formData s) \<noteq> [] \<and>
      form_sets (formData s) \<noteq> [] \<and> form_total_weight (formData s) \<noteq> [] \<and> user s \<noteq> None) \<and>
   (\<forall>r. db_exercises_create r \<in> set (handleSubmit parseInt parseFloat now created listed s) \<longrightarrow>
      reps r = parseInt (form_reps (formData s)) \<and>
      sets r = parseInt (form_sets (formData s)) \<and>
      total_weight r = parseFloat (form_total_weight (formData s)))"
proof -
  have toasts: "validationToast \<noteq> successToast" "validationToast \<noteq> createFailedToast"
    "validationToast \<noteq> loadFailedToast"
    by (simp_all add: validationToast_def successToast_def createFailedToast_def
          loadFailedToast_def)
  show ?thesis
    using toasts
    by (auto simp: handleSubmit_def loadExercises_def split: option.splits settled.splits)
qed

text \<open>
  Zero reps and a sets field that is no number: the draft is sent all the same, with
  reps 0 and sets NaN.
\<close>

theorem handleSubmit_validates_emptiness_only_witness:
  "db_exercises_create
     \<lparr>user_id = ''u1'', exercise_name = ''Bench Press'', category = Upper, reps = Some 0,
      sets = None, total_weight = Some 135, created_at = ''2024-05-03T07:10:00.000Z''\<rparr>
     \<in> set (handleSubmit digits_parse digits_parse ''2024-05-03T07:10:00.000Z''
              (Fulfilled ()) (Fulfilled after_logging) odd_numbers_state) \<and>
   toast validationToast \<notin>
     set (handleSubmit digits_parse digits_parse ''2024-05-03T07:10:00.000Z''
            (Fulfilled ()) (Fulfilled after_logging) odd_numbers_state) \<and>
   digits_parse (form_reps (formData odd_numbers_state)) = Some 0 \<and>
   digits_parse (form_sets (formData odd_numbers_state)) = None"
proof -
  have filled: "form_exercise_name (formData odd_numbers_state) \<noteq> []"
      "form_reps (formData odd_numbers_state) \<noteq> []"
      "form_sets (formData odd_numbers_state) \<noteq> []"
      "form_total_weight (formData odd_numbers_state) \<noteq> []"
    by (simp_all add: odd_numbers_state_def gym_state_def)
  have sent: "db_exercises_create
     \<lparr>user_id = ''u1'', exercise_name = ''Bench Press'', category = Upper, reps = Some 0,
      sets = None, total_weight = Some 135, created_at = ''2024-05-03T07:10:00.000Z''\<rparr>
     \<in> set (handleSubmit digits_parse digits_parse ''2024-05-03T07:10:00.000Z''
              (Fulfilled ()) (Fulfilled after_logging) odd_numbers_state)"
    by code_simp
  from handleSubmit_validates_emptiness_only
         [of digits_parse digits_parse "''2024-05-03T07:10:00.000Z''" "Fulfilled ()"
            "Fulfilled after_logging" odd_numbers_state]
       filled sent
  show ?thesis by fastforce
qed

section \<open>Records are never edited\<close>

text \<open>
  Claim C7. Whatever event drives the component, each call it makes either leaves the
  loaded list as it is or is \<open>setExercises\<close> with the whole list that the event's
  fetch delivered; and the only call that writes to the store, \<open>create\<close>, is made by
  a form submission. The component makes no other store call than \<open>list\<close> and
  \<open>create\<close>: no call edits or deletes a record or changes its category.
\<close>

theorem exercises_change_only_by_fetch:
  assumes "c \<in> set (handle parseInt parseFloat ev s)"
  shows "(exercises (apply_call c t) = exercises t \<or>
          (\<exists>data. fetched ev = Some data \<and> c = setExercises data \<and>
             exercises (apply_call c t) = data)) \<and>
         (\<forall>r. c = db_exercises_create r \<longrightarrow>
            (\<exists>now created listed. ev = FormSubmit now created listed))"
  using assms
  by (cases ev)
     (auto simp: handleSubmit_def loadExercises_def split: option.splits settled.splits if_splits)

theorem exercises_change_only_by_fetch_witness:
  "setExercises after_logging \<in>
     set (handle digits_parse digits_parse
            (FormSubmit ''2024-05-03T07:10:00.000Z'' (Fulfilled ()) (Fulfilled after_logging))
            bench_state) \<and>
   fetched (FormSubmit ''2024-05-03T07:10:00.000Z'' (Fulfilled ()) (Fulfilled after_logging)) =
     Some after_logging \<and>
   exercises (apply_call (setExercises after_logging) bench_state) = after_logging \<and>
   exercises (apply_call (setExercises after_logging) bench_state) \<noteq> exercises bench_state"
proof -
  have made: "setExercises after_logging \<in>
     set (handle digits_parse digits_parse
            (FormSubmit ''2024-05-03T07:10:00.000Z'' (Fulfilled ()) (Fulfilled after_logging))
            bench_state)"
    by code_simp
  have differs:
    "exercises (apply_call (setExercises after_logging) bench_state) \<noteq> exercises bench_state"
    by (simp add: bench_state_def gym_state_def after_logging_def)
  from exercises_change_only_by_fetch [OF made, of bench_state] made differs
  show ?thesis by auto
qed

end
